theory Spec2Isabelle
  imports
    Main
    "HOL-Library.Char_ord"
    "HOL-Library.List_Lexorder"
    "HOL-Library.Sublist"
    "HOL-Library.Multiset"
begin

section \<open>Package flexdev: directory listings and their diff\<close>

text \<open>
  Go strings are byte sequences compared bytewise and lexicographically
  (a proper prefix sorts first). \<^typ>\<open>string\<close> with the orders of
  \<open>Char_ord\<close> and \<open>List_Lexorder\<close> is that order.
\<close>

record DirEntry =
  Path :: string
  IsDir :: bool
  SHA1 :: string

type_synonym DirList = "DirEntry list"

text \<open>\<^verbatim>\<open>strings.HasPrefix(s, prefix)\<close>.\<close>

definition HasPrefix :: "string \<Rightarrow> string \<Rightarrow> bool" where
  "HasPrefix s p = prefix p s"

text \<open>
  \<^verbatim>\<open>func (e DirEntry) InDir(dir DirEntry) bool {
      return dir.IsDir && strings.HasPrefix(e.Path+"/", dir.Path) }\<close>
\<close>

definition InDir :: "DirEntry \<Rightarrow> DirEntry \<Rightarrow> bool" where
  "InDir e dir = (IsDir dir \<and> HasPrefix (Path e @ ''/'') (Path dir))"

text \<open>
  What the words "lies strictly beneath the directory in the path tree" mean for
  slash-separated paths: the directory's path followed by a slash starts the
  entry's path. This definition follows the specification's words, not the code;
  it is only used to compare \<open>InDir\<close> with.
\<close>

definition strictly_beneath :: "DirEntry \<Rightarrow> DirEntry \<Rightarrow> bool" where
  "strictly_beneath e dir = (IsDir dir \<and> HasPrefix (Path e) (Path dir @ ''/''))"

text \<open>
  The closure \<open>appendEntry\<close> of \<open>Diff\<close>. The lists \<open>add\<close> and \<open>remove\<close> grow at
  the end, so the last-appended entry is \<open>last l\<close>.
\<close>

definition appendEntry :: "DirList \<Rightarrow> DirEntry \<Rightarrow> DirList" where
  "appendEntry l e =
     (if length l = 0 then l @ [e]
      else if InDir e (last l) then l
      else l @ [e])"

text \<open>
  The first loop of \<open>Diff\<close>, on the two cursors \<open>ours\<close> and \<open>want\<close> (\<open>shift\<close>
  takes the head off a cursor) and the two result lists. It returns the cursors
  and the lists as they are when one cursor is empty. The source's third test,
  \<open>ours[0].Path < want[0].Path\<close>, is the last branch here: the order on paths is
  linear, so it holds whenever the first two tests fail.
\<close>

fun merge_loop ::
  "DirList \<Rightarrow> DirList \<Rightarrow> DirList \<Rightarrow> DirList \<Rightarrow> DirList \<times> DirList \<times> DirList \<times> DirList"
where
  "merge_loop (h # ours) (w # want) add remove =
     (if Path h = Path w then
        (if IsDir h \<noteq> IsDir w then
           merge_loop ours want (appendEntry add w) (appendEntry remove h)
         else if SHA1 h = SHA1 w then
           merge_loop ours want add remove
         else
           merge_loop ours want (appendEntry add w) remove)
      else if Path h > Path w then
        merge_loop (h # ours) want (appendEntry add w) remove
      else
        merge_loop ours (w # want) add (appendEntry remove h))"
| "merge_loop ours want add remove = (ours, want, add, remove)"

text \<open>The two closing loops: every entry left on a cursor goes through \<open>appendEntry\<close>.\<close>

fun drain :: "DirList \<Rightarrow> DirList \<Rightarrow> DirList" where
  "drain l [] = l"
| "drain l (e # es) = drain (appendEntry l e) es"

text \<open>
  \<open>sort.Sort\<close> orders a \<open>DirList\<close> by \<open>Path\<close>, in place. It is not a stable sort;
  \<open>sort_key Path\<close> is the sorted list whenever the paths are distinct (lemma
  \<open>sort_key_unique\<close> below), and one of the possible results otherwise: among
  entries of equal path \<open>sort.Sort\<close> may choose another order.

  \<open>Diff_st\<close> is \<open>Diff\<close> with its effect on the caller's memory: a slice shares its
  array with the caller, so the second component is what the caller's \<open>ours\<close>
  and \<open>want\<close> hold after the call. \<open>add\<close> and \<open>remove\<close> are fresh lists.
\<close>

definition Diff_st :: "DirList \<Rightarrow> DirList \<Rightarrow> (DirList \<times> DirList) \<times> (DirList \<times> DirList)" where
  "Diff_st ours want =
     (let want1 = sort_key Path want;
          ours1 = sort_key Path ours
      in case merge_loop ours1 want1 [] [] of
           (ours2, want2, add, remove) \<Rightarrow>
             ((drain add want2, drain remove ours2), (ours1, want1)))"

definition Diff :: "DirList \<Rightarrow> DirList \<Rightarrow> DirList \<times> DirList" where
  "Diff ours want = fst (Diff_st ours want)"

text \<open>A listing as \<open>ListDir\<close> builds it: only files carry a hash.\<close>

definition listed :: "DirEntry \<Rightarrow> bool" where
  "listed e = (IsDir e \<longrightarrow> SHA1 e = [])"

section \<open>Command server: the build, its life cycle and the handlers\<close>

subsection \<open>Data\<close>

text \<open>
  \<open>type state string\<close> with its six constants. A Go \<open>error\<close> is its message;
  \<open>nil\<close> is \<open>None\<close>.
\<close>

type_synonym state = string
type_synonym error = string

definition StateCreated :: state where "StateCreated = ''created''"
definition StateFetching :: state where "StateFetching = ''fetching''"
definition StateBuilding :: state where "StateBuilding = ''building''"
definition StateBuilt :: state where "StateBuilt = ''built''"
definition StateRunning :: state where "StateRunning = ''running''"
definition StateStopped :: state where "StateStopped = ''stopped''"

definition Version :: string where "Version = ''0.1''"

text \<open>\<open>flexdev.Build\<close>, and the server's \<open>Build\<close>, which embeds it.\<close>

record flexdev_Build =
  ID :: string
  State :: state

record config =
  Runtime :: string
  VM :: string
  Env :: "(string \<times> string) list"

text \<open>
  The fields of \<open>exec.Cmd\<close> the server sets, and \<open>Process\<close>, which \<open>cmd.Start\<close>
  fills in: \<open>None\<close> is the nil pointer.
\<close>

record Cmd =
  cmdArgs :: "string list"
  cmdDir :: string
  cmdEnv :: "string list"
  Process :: "nat option"

text \<open>
  The pointers \<open>cmd\<close> and \<open>config\<close> are options. The field \<open>remove\<close> of the
  source is \<open>removeF\<close> here.
\<close>

record Build = flexdev_Build +
  clientFiles :: DirList
  removeF :: "string list"
  dir :: string
  cmd :: "Cmd option"
  "output" :: string
  addr :: string
  config :: "config option"

record CreateBuildRequest =
  Config :: string
  Files :: DirList

record Response =
  Code :: nat
  Error :: "error option"
  RBuild :: "Build option"
  NeedFiles :: "string list"
  Message :: string
  ErrorJSON :: string

text \<open>A call either returns or panics; a panic leaves the state as it was reached.\<close>

datatype ('s, 'a) result = Panic 's | Return 'a

subsection \<open>The operating system and the libraries\<close>

text \<open>
  What the server asks of the operating system and of library packages is a
  parameter: one outcome for every call it makes. \<open>Join\<close> is \<open>filepath.Join\<close>
  of two elements, \<open>DirOf\<close> is \<open>filepath.Dir\<close>, \<open>compile\<close> is what running
  \<open>go build\<close> in a directory writes and returns, \<open>listen\<close> the address of the
  listener on port 0, \<open>spawn\<close> is \<open>cmd.Start\<close>, \<open>kill\<close> is \<open>Process.Kill\<close>,
  \<open>ListDir\<close> is the walk of \<open>flexdev.ListDir\<close>, \<open>now\<close> is
  \<open>time.Now().UnixNano()\<close>, \<open>sha1hex\<close> prints \<open>sha1.Sum\<close> with \<open>%x\<close>,
  \<open>Marshal\<close> is \<open>json.Marshal\<close> of a response, \<open>Sprint_config\<close> prints the
  \<open>config\<close> pointer as \<open>fmt.Fprintln\<close> does.
\<close>

record world =
  Environ :: "string list"
  packageDir :: string
  Join :: "string \<Rightarrow> string \<Rightarrow> string"
  DirOf :: "string \<Rightarrow> string"
  compile :: "string \<Rightarrow> string \<times> error option"
  listen :: "error + string"
  SplitHostPort :: "string \<Rightarrow> error + string"
  spawn :: "Cmd \<Rightarrow> error + nat"
  kill :: "nat \<Rightarrow> error option"
  ListDir :: "string \<Rightarrow> error + DirList"
  MkdirAll :: "string \<Rightarrow> error option"
  RemoveAll :: "string \<Rightarrow> error option"
  WriteFile :: "string \<Rightarrow> string \<Rightarrow> error option"
  yamlUnmarshal :: "string \<Rightarrow> error option \<times> config"
  now :: int
  sha1hex :: "string \<Rightarrow> string"
  Marshal :: "Response \<Rightarrow> error + string"
  Sprint_config :: "config option \<Rightarrow> string"

text \<open>The calls that change the disk, in the order they are made.\<close>

datatype disk_call = MkdirAllCall string | RemoveAllCall string | WriteFileCall string string

text \<open>The package variable \<open>build\<close> (\<open>None\<close> is nil) and the disk calls made so far.\<close>

record server =
  build :: "Build option"
  calls :: "disk_call list"

subsection \<open>The response writer\<close>

text \<open>
  \<open>http.ResponseWriter\<close>: the header map, the status code once written, the
  header as it was sent with the status, and the chunks written to the body.
  \<open>WriteHeader\<close> counts once; a header set afterwards is not sent; \<open>Write\<close>
  sends status 200 first when no status was written.
\<close>

record ResponseWriter =
  header :: "string \<rightharpoonup> string"
  status :: "nat option"
  sentHeader :: "string \<rightharpoonup> string"
  body :: "string list"

definition newWriter :: ResponseWriter where
  "newWriter = \<lparr>header = Map.empty, status = None, sentHeader = Map.empty, body = []\<rparr>"

definition HeaderSet :: "string \<Rightarrow> string \<Rightarrow> ResponseWriter \<Rightarrow> ResponseWriter" where
  "HeaderSet k v w = w\<lparr>header := (header w)(k \<mapsto> v)\<rparr>"

definition WriteHeader :: "nat \<Rightarrow> ResponseWriter \<Rightarrow> ResponseWriter" where
  "WriteHeader c w =
     (if status w = None then w\<lparr>status := Some c, sentHeader := header w\<rparr> else w)"

definition Write :: "string \<Rightarrow> ResponseWriter \<Rightarrow> ResponseWriter" where
  "Write b w = (let w1 = WriteHeader 200 w in w1\<lparr>body := body w1 @ [b]\<rparr>)"

definition StatusBadRequest :: nat where "StatusBadRequest = 400"
definition StatusServiceUnavailable :: nat where "StatusServiceUnavailable = 503"

text \<open>\<open>Response.WriteTo\<close>.\<close>

definition WriteTo :: "world \<Rightarrow> Response \<Rightarrow> ResponseWriter \<Rightarrow> ResponseWriter" where
  "WriteTo W r0 w =
     (let r = (case Error r0 of Some e \<Rightarrow> r0\<lparr>ErrorJSON := e\<rparr> | None \<Rightarrow> r0)
      in case Marshal W r of
           Inl err \<Rightarrow>
             Write (''{'' @ [CHR 0x22] @ ''error'' @ [CHR 0x22] @ '':'' @ [CHR 0x22]
                      @ ''Could not marshal response JSON. Check server logs.''
                      @ [CHR 0x22] @ ''}'')
               (WriteHeader 500 w)
         | Inr b \<Rightarrow>
             Write b
               (if Code r \<noteq> 0 then WriteHeader (Code r) w
                else if Error r \<noteq> None then WriteHeader 500 w
                else w))"

text \<open>The zero \<open>Response\<close>, whose fields the handlers set by name.\<close>

definition Response0 :: Response where
  "Response0 = \<lparr>Code = 0, Error = None, RBuild = None, NeedFiles = [], Message = [], ErrorJSON = []\<rparr>"

subsection \<open>The life cycle of a build\<close>

text \<open>
  \<open>GoBuild\<close>. \<open>run\<close> is the outcome of \<open>cmd.Run()\<close> of the compiler in \<open>b.dir\<close>:
  what it wrote to \<open>b.output\<close> and its error.
\<close>

definition GoBuild :: "string \<times> error option \<Rightarrow> Build \<Rightarrow> error option \<times> Build" where
  "GoBuild run b =
     (let b1 = b\<lparr>State := StateBuilding\<rparr>;
          b2 = b1\<lparr>output := output b1 @ fst run\<rparr>
      in case snd run of
           Some err \<Rightarrow> (Some err, b2)
         | None \<Rightarrow> (None, b2\<lparr>State := StateBuilt\<rparr>))"

text \<open>\<open>env\<close>: drop the entries of key \<open>k\<close>, append \<open>k=v\<close>.\<close>

definition env :: "string list \<Rightarrow> string \<Rightarrow> string \<Rightarrow> string list" where
  "env e k v = filter (\<lambda>entry. \<not> HasPrefix entry (k @ ''='')) e @ [k @ ''='' @ v]"

text \<open>
  \<open>Start\<close>. The loop over the environment reads the package variable \<open>build\<close>,
  not the receiver; \<open>g\<close> is that variable. The map \<open>Env\<close> is ranged over in the
  order of the list.
\<close>

definition Start :: "world \<Rightarrow> Build option \<Rightarrow> Build \<Rightarrow> (Build, error option \<times> Build) result" where
  "Start W g b =
     (case listen W of
        Inl err \<Rightarrow> Return (Some err, b)
      | Inr a \<Rightarrow>
          (let b1 = b\<lparr>addr := a\<rparr> in
           (case SplitHostPort W a of
              Inl err \<Rightarrow> Return (Some err, b1)
            | Inr port \<Rightarrow>
                (let environ1 = env (Environ W) ''PORT'' port;
                     environ2 = env environ1 ''GOPATH'' (Join W (dir b1) ''_gopath'')
                 in (case g of
                       None \<Rightarrow> Panic b1
                     | Some gb \<Rightarrow>
                         (case config gb of
                            None \<Rightarrow> Panic b1
                          | Some c \<Rightarrow>
                              (let environ3 = fold (\<lambda>(k, v) e. env e k v) (Env c) environ2;
                                   c0 = \<lparr>cmdArgs = [''./a.out''], cmdDir = dir b1,
                                         cmdEnv = environ3, Process = None\<rparr>;
                                   b2 = b1\<lparr>cmd := Some c0\<rparr>
                               in (case spawn W c0 of
                                     Inl err \<Rightarrow> Return (Some err, b2)
                                   | Inr pid \<Rightarrow>
                                       Return (None,
                                         b2\<lparr>cmd := Some (c0\<lparr>Process := Some pid\<rparr>),
                                            State := StateRunning\<rparr>)))))))))"

text \<open>\<open>Stop\<close>. Reading \<open>b.cmd.Process\<close> through a nil \<open>b.cmd\<close> panics.\<close>

definition Stop :: "world \<Rightarrow> Build \<Rightarrow> (Build, error option \<times> Build) result" where
  "Stop W b =
     (if State b \<noteq> StateRunning then
        Return (Some ''Tried to stop binary when not running'', b)
      else
        (case cmd b of
           None \<Rightarrow> Panic b
         | Some c \<Rightarrow>
             (case Process c of
                None \<Rightarrow>
                  Return (Some ''Tried to stop binary when process not running'',
                          b\<lparr>State := StateStopped\<rparr>)
              | Some pid \<Rightarrow>
                  (case kill W pid of
                     Some err \<Rightarrow> Return (Some err, b)
                   | None \<Rightarrow> Return (None, b\<lparr>State := StateStopped\<rparr>)))))"

text \<open>
  \<open>filesNeeded\<close>. \<open>Diff\<close> sorts \<open>b.clientFiles\<close> in place, so the build comes
  back with it.
\<close>

definition filesNeeded ::
  "world \<Rightarrow> Build \<Rightarrow> (string list \<times> string list \<times> error option) \<times> Build"
where
  "filesNeeded W b =
     (case ListDir W (dir b) of
        Inl err \<Rightarrow> (([], [], Some err), b)
      | Inr ours \<Rightarrow>
          (case Diff_st ours (clientFiles b) of
             ((add, del), (ours', want')) \<Rightarrow>
               ((map Path add, map Path del, None), b\<lparr>clientFiles := want'\<rparr>)))"

subsection \<open>The handlers\<close>

text \<open>
  \<open>proxyHandler\<close> either answers itself or hands the request to a reverse proxy
  for the target (scheme and host), with the writer as it is then.
\<close>

datatype proxy_result =
  Replied (reply: ResponseWriter)
| is_Forwarded: Forwarded (scheme: string) (host: string) (handed: ResponseWriter)

definition proxyHandler :: "ResponseWriter \<Rightarrow> server \<Rightarrow> proxy_result" where
  "proxyHandler w s =
     (case build s of
        None \<Rightarrow>
          Replied
            (Write ''No app to run. Use `flexdev deploy` to deploy the application code.''
              (HeaderSet ''Content-Type'' ''text/plain; charset=utf-8''
                (WriteHeader StatusServiceUnavailable w)))
      | Some b \<Rightarrow>
          if State b \<noteq> StateRunning then
            Replied
              (Write (output b)
                (Write (''state: '' @ State b @ [CHR 0x0A])
                  (HeaderSet ''Content-Type'' ''text/plain; charset=utf-8''
                    (WriteHeader StatusServiceUnavailable w))))
          else
            Forwarded ''http'' (addr b) (HeaderSet ''X-FlexDev'' Version w))"

text \<open>
  The body of a create request as \<open>json.NewDecoder(r.Body).Decode\<close> sees it: an
  error other than \<open>io.EOF\<close>, \<open>io.EOF\<close> (nothing to read, the request stays
  zero), or a request.
\<close>

datatype json_body = BadJSON error | EmptyBody | Body CreateBuildRequest

text \<open>\<open>fmt.Sprintf("%d", n)\<close>.\<close>

fun digits :: "nat \<Rightarrow> string" where
  "digits n =
     (if n < 10 then [''0123456789'' ! n]
      else digits (n div 10) @ [''0123456789'' ! (n mod 10)])"

definition Sprintf_d :: "int \<Rightarrow> string" where
  "Sprintf_d i = (if i < 0 then ''-'' @ digits (nat (- i)) else digits (nat i))"

text \<open>
  The loop of \<open>createBuildHandler\<close> over \<open>remove\<close>: it stops at the first
  \<open>os.RemoveAll\<close> that fails.
\<close>

fun removeLoop :: "world \<Rightarrow> string \<Rightarrow> string list \<Rightarrow> disk_call list \<Rightarrow> error option \<times> disk_call list" where
  "removeLoop W d [] cs = (None, cs)"
| "removeLoop W d (f # fs) cs =
     (let p = Join W d f; cs1 = cs @ [RemoveAllCall p]
      in case RemoveAll W p of
           Some err \<Rightarrow> (Some err, cs1)
         | None \<Rightarrow> removeLoop W d fs cs1)"

text \<open>
  \<open>createBuildHandler\<close>, from the allocation of the new build on: what follows
  \<open>os.MkdirAll(packageDir)\<close> when it succeeds. \<open>cfg\<close> is the local \<open>config\<close> that
  \<open>yaml.Unmarshal\<close> filled.
\<close>

definition createBuild_allocate ::
  "world \<Rightarrow> CreateBuildRequest \<Rightarrow> config \<Rightarrow> ResponseWriter \<Rightarrow> server \<Rightarrow> ResponseWriter \<times> server"
where
  "createBuild_allocate W buildReq cfg w s =
     (let b = \<lparr>ID = Sprintf_d (now W), State = StateCreated,
                clientFiles = Files buildReq, removeF = [], dir = packageDir W,
                cmd = None, output = [], addr = [], config = Some cfg\<rparr>
      in case filesNeeded W b of
           ((need, remove, Some err), b1) \<Rightarrow>
             (WriteTo W (Response0\<lparr>Error := Some (''Could not get needed files: '' @ err)\<rparr>) w,
              s\<lparr>build := Some b1\<rparr>)
         | ((need, remove, None), b1) \<Rightarrow>
             (case removeLoop W (dir b1) remove (calls s) of
                (Some err, cs) \<Rightarrow>
                  (WriteTo W (Response0\<lparr>Error := Some err\<rparr>) w,
                   s\<lparr>build := Some b1, calls := cs\<rparr>)
              | (None, cs) \<Rightarrow>
                  (WriteTo W (Response0\<lparr>Message := ''Build created.'', RBuild := Some b1,
                                         NeedFiles := need\<rparr>) w,
                   s\<lparr>build := Some b1, calls := cs\<rparr>)))"

text \<open>
  \<open>createBuildHandler\<close>, from the request on: what follows the stop of a running
  build.
\<close>

definition createBuild_request ::
  "world \<Rightarrow> json_body \<Rightarrow> ResponseWriter \<Rightarrow> server \<Rightarrow> ResponseWriter \<times> server"
where
  "createBuild_request W rbody w s =
     (case rbody of
        BadJSON err \<Rightarrow>
          (WriteTo W (Response0\<lparr>Error := Some (''Could not read build req: '' @ err)\<rparr>) w, s)
      | _ \<Rightarrow>
          (let buildReq = (case rbody of Body r \<Rightarrow> r | _ \<Rightarrow> \<lparr>Config = [], Files = []\<rparr>) in
           if length (Config buildReq) = 0 then
             (WriteTo W (Response0\<lparr>Error := Some ''Missing config file.'',
                                    Code := StatusBadRequest\<rparr>) w, s)
           else if length (Files buildReq) = 0 then
             (WriteTo W (Response0\<lparr>Error := Some ''Missing dir list.'',
                                    Code := StatusBadRequest\<rparr>) w, s)
           else
             (let yerr = fst (yamlUnmarshal W (Config buildReq));
                  cfg = snd (yamlUnmarshal W (Config buildReq));
                  w1 = (case yerr of
                          Some err \<Rightarrow>
                            WriteTo W (Response0\<lparr>Error := Some (''Could not parse yaml config: '' @ err),
                                                  Code := StatusBadRequest\<rparr>) w
                        | None \<Rightarrow> w);
                  s1 = s\<lparr>calls := calls s @ [MkdirAllCall (packageDir W)]\<rparr>
              in (case MkdirAll W (packageDir W) of
                    Some err \<Rightarrow> (WriteTo W (Response0\<lparr>Error := Some err\<rparr>) w1, s1)
                  | None \<Rightarrow> createBuild_allocate W buildReq cfg w1 s1))))"

definition createBuildHandler ::
  "world \<Rightarrow> json_body \<Rightarrow> ResponseWriter \<Rightarrow> server \<Rightarrow>
     (ResponseWriter \<times> server, ResponseWriter \<times> server) result"
where
  "createBuildHandler W rbody w s =
     (case build s of
        None \<Rightarrow> Return (createBuild_request W rbody w s)
      | Some b0 \<Rightarrow>
          if State b0 = StateRunning then
            (case Stop W b0 of
               Panic b1 \<Rightarrow> Panic (w, s\<lparr>build := Some b1\<rparr>)
             | Return (Some err, b1) \<Rightarrow>
                 Return (WriteTo W (Response0\<lparr>Error := Some (''Could not stop existing binary: '' @ err)\<rparr>) w,
                         s\<lparr>build := Some b1\<rparr>)
             | Return (None, b1) \<Rightarrow>
                 Return (createBuild_request W rbody w (s\<lparr>build := Some b1\<rparr>)))
          else Return (createBuild_request W rbody w s))"

text \<open>
  \<open>putFileHandler\<close>; \<open>buildID\<close>, \<open>dest\<close> and \<open>hash\<close> are the form values, \<open>rbody\<close>
  is \<open>ioutil.ReadAll(r.Body)\<close>. \<open>build.ID\<close> is read without a nil test.
\<close>

definition putFileHandler ::
  "world \<Rightarrow> string \<Rightarrow> string \<Rightarrow> string \<Rightarrow> error + string \<Rightarrow> ResponseWriter \<Rightarrow> server \<Rightarrow>
     (ResponseWriter \<times> server, ResponseWriter \<times> server) result"
where
  "putFileHandler W buildID dest hash rbody w s =
     (if buildID = [] then
        Return (WriteTo W (Response0\<lparr>Code := StatusBadRequest, Error := Some ''Missing build ID.''\<rparr>) w, s)
      else
        (case build s of
           None \<Rightarrow> Panic (w, s)
         | Some b \<Rightarrow>
             (if buildID \<noteq> ID b then
                Return (WriteTo W (Response0\<lparr>Code := StatusBadRequest, Error := Some ''Build ID does not match.''\<rparr>) w, s)
              else if dest = [] then
                Return (WriteTo W (Response0\<lparr>Code := StatusBadRequest, Error := Some ''Missing destination filename.''\<rparr>) w, s)
              else if hash = [] then
                Return (WriteTo W (Response0\<lparr>Code := StatusBadRequest, Error := Some ''Missing hash.''\<rparr>) w, s)
              else
                (case rbody of
                   Inl err \<Rightarrow> Return (WriteTo W (Response0\<lparr>Error := Some err\<rparr>) w, s)
                 | Inr bs \<Rightarrow>
                     (if sha1hex W bs \<noteq> hash then
                        Return (WriteTo W (Response0\<lparr>Code := StatusBadRequest, Error := Some ''sum did not match''\<rparr>) w, s)
                      else
                        (let target = Join W (dir b) dest;
                             s1 = s\<lparr>calls := calls s @ [MkdirAllCall (DirOf W target)]\<rparr>
                         in (case MkdirAll W (DirOf W target) of
                               Some err \<Rightarrow>
                                 Return (WriteTo W (Response0\<lparr>Error := Some (''Could not mkdir -p '' @ dest @ '': '' @ err)\<rparr>) w, s1)
                             | None \<Rightarrow>
                                 (let s2 = s1\<lparr>calls := calls s1 @ [WriteFileCall target bs]\<rparr>
                                  in (case WriteFile W target bs of
                                        Some err \<Rightarrow>
                                          Return (WriteTo W (Response0\<lparr>Error := Some (''Could not write file to '' @ dest @ '': '' @ err)\<rparr>) w, s2)
                                      | None \<Rightarrow>
                                          Return (WriteTo W (Response0\<lparr>Message := ''Wrote '' @ dest\<rparr>) w, s2))))))))))"

text \<open>\<open>startBuildHandler\<close>; \<open>build.GoBuild()\<close> writes \<open>b.State\<close> without a nil test.\<close>

definition startBuildHandler ::
  "world \<Rightarrow> ResponseWriter \<Rightarrow> server \<Rightarrow> (ResponseWriter \<times> server, ResponseWriter \<times> server) result"
where
  "startBuildHandler W w s =
     (case build s of
        None \<Rightarrow> Panic (w, s)
      | Some b \<Rightarrow>
          (case GoBuild (compile W (dir b)) b of
             (Some err, b1) \<Rightarrow>
               Return (WriteTo W (Response0\<lparr>Message := output b1,
                                            Error := Some (''Build failed: '' @ err)\<rparr>) w,
                       s\<lparr>build := Some b1\<rparr>)
           | (None, b1) \<Rightarrow>
               (case Start W (Some b1) b1 of
                  Panic b2 \<Rightarrow> Panic (w, s\<lparr>build := Some b2\<rparr>)
                | Return (Some err, b2) \<Rightarrow>
                    Return (WriteTo W (Response0\<lparr>Error := Some (''Could not run binary: '' @ err)\<rparr>) w,
                            s\<lparr>build := Some b2\<rparr>)
                | Return (None, b2) \<Rightarrow>
                    Return (WriteTo W (Response0\<lparr>Message := ''App is running.''\<rparr>) w,
                            s\<lparr>build := Some b2\<rparr>))))"

text \<open>\<open>statusHandler\<close>.\<close>

definition statusHandler :: "world \<Rightarrow> ResponseWriter \<Rightarrow> server \<Rightarrow> ResponseWriter \<times> server" where
  "statusHandler W w s =
     (case build s of
        None \<Rightarrow> (WriteTo W (Response0\<lparr>Message := ''build=nil'' @ [CHR 0x0A]\<rparr>) w, s)
      | Some b \<Rightarrow>
          (WriteTo W (Response0\<lparr>Message :=
              ID b @ [CHR 0x0A] @ State b @ [CHR 0x0A] @ addr b @ [CHR 0x0A]
              @ Sprint_config W (config b) @ [CHR 0x0A] @ output b @ [CHR 0x0A]\<rparr>) w, s))"

subsection \<open>A world, a build and a request to run the handlers on\<close>

definition exampleWorld :: world where
  "exampleWorld =
     \<lparr>Environ = [''PATH=/bin''],
      packageDir = ''/tmp/flexdev-server'',
      Join = (\<lambda>a b. a @ ''/'' @ b),
      DirOf = (\<lambda>p. p),
      compile = (\<lambda>d. (''main.go:3: syntax error'', Some ''exit status 2'')),
      listen = Inr ''[::]:8081'',
      SplitHostPort = (\<lambda>a. Inr ''8081''),
      spawn = (\<lambda>c. Inr 7),
      kill = (\<lambda>p. None),
      ListDir = (\<lambda>d. Inr [\<lparr>Path = ''.'', IsDir = True, SHA1 = ''''\<rparr>,
                           \<lparr>Path = ''old.go'', IsDir = False, SHA1 = ''0''\<rparr>]),
      MkdirAll = (\<lambda>p. None),
      RemoveAll = (\<lambda>p. None),
      WriteFile = (\<lambda>p b. None),
      yamlUnmarshal = (\<lambda>c. (Some ''yaml: did not find expected key'',
                              \<lparr>Runtime = ''go'', VM = '''', Env = []\<rparr>)),
      now = 1462603439818096410,
      sha1hex = (\<lambda>b. ''da39''),
      Marshal = (\<lambda>r. Inr (ErrorJSON r @ Message r)),
      Sprint_config = (\<lambda>c. ''&{}'')\<rparr>"

definition exampleBuild :: Build where
  "exampleBuild =
     \<lparr>ID = ''1'', State = StateCreated, clientFiles = [], removeF = [],
      dir = ''/tmp/flexdev-server'', cmd = None, output = ''log'', addr = '''',
      config = Some \<lparr>Runtime = ''go'', VM = ''true'', Env = []\<rparr>\<rparr>"

definition exampleCmd :: Cmd where
  "exampleCmd = \<lparr>cmdArgs = [''./a.out''], cmdDir = ''/tmp/flexdev-server'', cmdEnv = [], Process = None\<rparr>"

definition exampleRequest :: CreateBuildRequest where
  "exampleRequest =
     \<lparr>Config = ''runtime: [go'',
      Files = [\<lparr>Path = ''main.go'', IsDir = False, SHA1 = ''1''\<rparr>,
               \<lparr>Path = ''.'', IsDir = True, SHA1 = ''''\<rparr>]\<rparr>"

section \<open>Command flexdev: the upload pool of doDeploy\<close>

text \<open>
  \<open>doDeploy\<close> starts 15 goroutines that run the same loop, and then sends the
  paths to upload over the unbuffered channel \<open>sendFile\<close>. A worker is at one of
  five places of its loop:
  \<^item> \<open>AtCheck\<close>: at the top, before it reads \<open>sendErr\<close> under \<open>errMu\<close>;
  \<^item> \<open>AtReceive skip\<close>: at \<open>path := <-sendFile\<close>, holding the \<open>skip\<close> it computed;
  \<^item> \<open>AtPut path\<close>: it received \<open>path\<close> with \<open>skip\<close> false and is about to call
    \<open>putFile\<close>;
  \<^item> \<open>AtRecord path err\<close>: \<open>putFile\<close> failed and it is about to assign \<open>sendErr\<close>
    under \<open>errMu\<close>;
  \<^item> \<open>AtDone\<close>: it is about to call \<open>wg.Done()\<close> and go back to the top.
\<close>

datatype worker =
  AtCheck
| AtReceive bool
| AtPut string
| AtRecord string error
| AtDone

text \<open>
  The variables the goroutines share: \<open>sendErr\<close>, the workers, the paths the
  producer has still to send (\<open>pending\<close>, in the order it sends them: the files
  of \<open>NeedFiles\<close> and of the directories among them, where \<open>os.Stat\<close> and
  \<open>filepath.Walk\<close> succeed), the counter of \<open>wg\<close>, and the paths \<open>putFile\<close> was
  called for.
\<close>

record pool =
  sendErr :: "error option"
  workers :: "worker list"
  pending :: "string list"
  wg :: int
  transferred :: "string list"

text \<open>
  One step of worker \<open>i\<close>. Every step is one of the loop's actions on shared
  state: the read of \<open>sendErr\<close> under the lock, the receive, the call of
  \<open>putFile\<close> (its outcome for a path is a parameter), the assignment of
  \<open>sendErr\<close> under the lock, and \<open>wg.Done()\<close>. The channel is unbuffered, so a
  receive is the producer's send: it takes the next pending path, and the
  producer's \<open>wg.Add(1)\<close>, which comes right before its send, is counted with it.
  A worker at the receive stays there while nothing is pending.
\<close>

definition worker_step :: "(string \<Rightarrow> error option) \<Rightarrow> nat \<Rightarrow> pool \<Rightarrow> pool" where
  "worker_step putFile i p =
     (if length (workers p) \<le> i then p
      else
        (case workers p ! i of
           AtCheck \<Rightarrow> p\<lparr>workers := (workers p)[i := AtReceive (sendErr p \<noteq> None)]\<rparr>
         | AtReceive skip \<Rightarrow>
             (case pending p of
                [] \<Rightarrow> p
              | path # rest \<Rightarrow>
                  p\<lparr>pending := rest, wg := wg p + 1,
                    workers := (workers p)[i := (if skip then AtDone else AtPut path)]\<rparr>)
         | AtPut path \<Rightarrow>
             (case putFile path of
                Some err \<Rightarrow>
                  p\<lparr>transferred := transferred p @ [path],
                    workers := (workers p)[i := AtRecord path err]\<rparr>
              | None \<Rightarrow>
                  p\<lparr>transferred := transferred p @ [path],
                    workers := (workers p)[i := AtDone]\<rparr>)
         | AtRecord path err \<Rightarrow>
             p\<lparr>sendErr := Some (''Could not send '' @ path @ '': '' @ err),
               workers := (workers p)[i := AtDone]\<rparr>
         | AtDone \<Rightarrow> p\<lparr>wg := wg p - 1, workers := (workers p)[i := AtCheck]\<rparr>))"

text \<open>The pool as \<open>doDeploy\<close> starts it, with the paths it is going to send.\<close>

definition startPool :: "string list \<Rightarrow> pool" where
  "startPool files =
     \<lparr>sendErr = None, workers = replicate 15 AtCheck, pending = files, wg = 0,
      transferred = []\<rparr>"

text \<open>
  The scheduler is a parameter: the list of the workers that take a step, in
  the order they take it.
\<close>

definition runPool :: "(string \<Rightarrow> error option) \<Rightarrow> nat list \<Rightarrow> pool \<Rightarrow> pool" where
  "runPool putFile schedule p = fold (worker_step putFile) schedule p"

text \<open>
  What \<open>doDeploy\<close> makes of the pool after its sending loop: \<open>wg.Wait()\<close> returns
  once every path is sent and the counter is zero, and then \<open>sendErr\<close> decides.
  \<open>None\<close>: it has not come that far.
\<close>

definition uploadResult :: "pool \<Rightarrow> error option option" where
  "uploadResult p =
     (if pending p = [] \<and> wg p = 0 then
        Some (case sendErr p of
                None \<Rightarrow> None
              | Some e \<Rightarrow> Some (''Could not send file: '' @ e))
      else None)"

text \<open>A server that answers every upload with a checksum error.\<close>

definition sumMismatch :: "string \<Rightarrow> error option" where
  "sumMismatch path = Some ''Remote error: sum did not match''"

section \<open>Properties of the diff\<close>

lemma path_trichotomy:
  fixes p q :: string
  shows "p \<noteq> q \<Longrightarrow> \<not> p > q \<Longrightarrow> p < q"
  by auto

lemma merge_loop_same: "merge_loop xs xs add remove = ([], [], add, remove)"
  by (induction xs) simp_all

lemma Diff_st_inputs: "snd (Diff_st ours want) = (sort_key Path ours, sort_key Path want)"
  by (simp add: Diff_st_def Let_def split: prod.splits)

lemma strictly_beneath_InDir: "strictly_beneath e d \<Longrightarrow> InDir e d"
  by (auto simp: strictly_beneath_def InDir_def HasPrefix_def prefix_def)

subsection \<open>The sort\<close>

text \<open>
  A list whose paths are distinct has one sorted arrangement: whatever
  \<open>sort.Sort\<close> makes of it is \<open>sort_key Path\<close> of it. Statements that depend on
  the order the sort gives to entries of equal path carry the hypothesis that
  the paths are distinct.
\<close>

lemma filter_key_single:
  assumes "distinct (map f xs)" and "k \<in> set xs"
  shows "filter (\<lambda>x. f k = f x) xs = [k]"
  using assms
proof (induction xs)
  case Nil
  then show ?case by simp
next
  case (Cons a xs)
  show ?case
  proof (cases "a = k")
    case True
    with Cons.prems have "\<forall>x \<in> set xs. f k \<noteq> f x" by auto
    then have "filter (\<lambda>x. f k = f x) xs = []" by (simp add: filter_empty_conv)
    with True show ?thesis by simp
  next
    case False
    with Cons.prems have k: "k \<in> set xs" and "f a \<noteq> f k" by auto
    with Cons.IH Cons.prems show ?thesis by auto
  qed
qed

lemma sort_key_unique:
  assumes m: "mset ys = mset xs" and s: "sorted (map f ys)" and d: "distinct (map f xs)"
  shows "ys = sort_key f xs"
proof -
  from m have "mset (map f ys) = mset (map f xs)" by simp
  with d have dy: "distinct (map f ys)" by (metis mset_eq_imp_distinct_iff)
  from m have se: "set ys = set xs" by (rule mset_eq_setD)
  have fl: "filter (\<lambda>x. f k = f x) ys = filter (\<lambda>x. f k = f x) xs" if "k \<in> set ys" for k
    using that filter_key_single [OF dy, of k] filter_key_single [OF d, of k] se by simp
  have "sort_key f xs = ys"
    by (rule properties_for_sort_key [OF m fl s])
  then show ?thesis by simp
qed

subsection \<open>The package's own tests, run on the model\<close>

lemma TestTwoFiles:
  "Diff [\<lparr>Path = ''a'', IsDir = False, SHA1 = ''''\<rparr>] [\<lparr>Path = ''b'', IsDir = False, SHA1 = ''''\<rparr>]
   = ([\<lparr>Path = ''b'', IsDir = False, SHA1 = ''''\<rparr>], [\<lparr>Path = ''a'', IsDir = False, SHA1 = ''''\<rparr>])"
  by (simp add: Diff_def Diff_st_def Let_def appendEntry_def)

lemma TestOnlyWant:
  "Diff [] [\<lparr>Path = ''a'', IsDir = False, SHA1 = ''''\<rparr>, \<lparr>Path = ''c'', IsDir = False, SHA1 = ''''\<rparr>,
            \<lparr>Path = ''b'', IsDir = True, SHA1 = ''''\<rparr>, \<lparr>Path = ''b/a'', IsDir = False, SHA1 = ''''\<rparr>]
   = ([\<lparr>Path = ''a'', IsDir = False, SHA1 = ''''\<rparr>, \<lparr>Path = ''b'', IsDir = True, SHA1 = ''''\<rparr>,
       \<lparr>Path = ''c'', IsDir = False, SHA1 = ''''\<rparr>], [])"
  by (simp add: Diff_def Diff_st_def Let_def appendEntry_def InDir_def HasPrefix_def)

lemma TestFileNowDir:
  "Diff [\<lparr>Path = ''a'', IsDir = False, SHA1 = ''''\<rparr>]
        [\<lparr>Path = ''a'', IsDir = True, SHA1 = ''''\<rparr>, \<lparr>Path = ''a/b'', IsDir = False, SHA1 = ''''\<rparr>]
   = ([\<lparr>Path = ''a'', IsDir = True, SHA1 = ''''\<rparr>], [\<lparr>Path = ''a'', IsDir = False, SHA1 = ''''\<rparr>])"
  by (simp add: Diff_def Diff_st_def Let_def appendEntry_def InDir_def HasPrefix_def)

lemma TestMismatchSHA:
  "Diff [\<lparr>Path = ''a'', IsDir = False, SHA1 = ''a''\<rparr>] [\<lparr>Path = ''a'', IsDir = False, SHA1 = ''b''\<rparr>]
   = ([\<lparr>Path = ''a'', IsDir = False, SHA1 = ''b''\<rparr>], [])"
  by (simp add: Diff_def Diff_st_def Let_def appendEntry_def)

lemma TestRemoveDirs:
  "Diff [\<lparr>Path = ''a'', IsDir = True, SHA1 = ''''\<rparr>, \<lparr>Path = ''a/a'', IsDir = False, SHA1 = ''''\<rparr>,
         \<lparr>Path = ''a/b'', IsDir = False, SHA1 = ''''\<rparr>] []
   = ([], [\<lparr>Path = ''a'', IsDir = True, SHA1 = ''''\<rparr>])"
  by (simp add: Diff_def Diff_st_def Let_def appendEntry_def InDir_def HasPrefix_def)

subsection \<open>Entries with equal paths\<close>

text \<open>
  At equal paths the loop goes on with the tails of both cursors and offers the
  entries as follows: when the directory flags differ, the "have" entry to
  \<open>remove\<close> and the "want" entry to \<open>add\<close>; when both are files with different
  hashes, the "want" entry to \<open>add\<close>; otherwise nothing (in a listing a directory
  has no hash). Whether an offered entry is appended is up to \<open>appendEntry\<close>.
\<close>

lemma merge_loop_equal_paths:
  assumes "Path h = Path w" and "listed h" and "listed w"
  shows "merge_loop (h # ours) (w # want) add remove =
           merge_loop ours want
             (if IsDir h \<noteq> IsDir w then appendEntry add w
              else if \<not> IsDir h \<and> \<not> IsDir w \<and> SHA1 h \<noteq> SHA1 w then appendEntry add w
              else add)
             (if IsDir h \<noteq> IsDir w then appendEntry remove h else remove)"
  using assms by (auto simp: listed_def)

text \<open>
  Claim C1. At equal paths a type swap should put the "have" entry in \<open>remove\<close>
  and the "want" entry in \<open>add\<close>, and a changed file should put the "want"
  entry in \<open>add\<close>. The slip of \<open>InDir\<close> (claim C2) loses such entries in trees
  where a directory's name starts the name of its sibling. With the directory
  \<open>a\<close> gone and the file \<open>ab\<close> now a directory, \<open>remove\<close> holds \<open>a\<close> but not
  the file \<open>ab\<close>. With the directory \<open>a\<close> new and the file \<open>ab\<close> changed,
  \<open>add\<close> holds \<open>a\<close> but not \<open>ab\<close>.
\<close>

theorem C1_equal_paths_entry_dropped:
  "Diff [\<lparr>Path = ''.'', IsDir = True, SHA1 = ''''\<rparr>,
         \<lparr>Path = ''a'', IsDir = True, SHA1 = ''''\<rparr>,
         \<lparr>Path = ''ab'', IsDir = False, SHA1 = ''1''\<rparr>]
        [\<lparr>Path = ''.'', IsDir = True, SHA1 = ''''\<rparr>,
         \<lparr>Path = ''ab'', IsDir = True, SHA1 = ''''\<rparr>,
         \<lparr>Path = ''ab/x'', IsDir = False, SHA1 = ''2''\<rparr>]
     = ([\<lparr>Path = ''ab'', IsDir = True, SHA1 = ''''\<rparr>],
        [\<lparr>Path = ''a'', IsDir = True, SHA1 = ''''\<rparr>])
   \<and> Diff [\<lparr>Path = ''.'', IsDir = True, SHA1 = ''''\<rparr>,
           \<lparr>Path = ''ab'', IsDir = False, SHA1 = ''1''\<rparr>]
          [\<lparr>Path = ''.'', IsDir = True, SHA1 = ''''\<rparr>,
           \<lparr>Path = ''a'', IsDir = True, SHA1 = ''''\<rparr>,
           \<lparr>Path = ''a/x'', IsDir = False, SHA1 = ''3''\<rparr>,
           \<lparr>Path = ''ab'', IsDir = False, SHA1 = ''2''\<rparr>]
     = ([\<lparr>Path = ''a'', IsDir = True, SHA1 = ''''\<rparr>], [])"
  by (simp add: Diff_def Diff_st_def Let_def appendEntry_def InDir_def HasPrefix_def)

text \<open>
  The test of the hashes does not look at the directory flags: two directories
  at the same path that carry different hashes, which no listing holds, are
  treated as a changed file.
\<close>

lemma equal_paths_directories_with_hashes:
  "merge_loop [\<lparr>Path = ''d'', IsDir = True, SHA1 = ''1''\<rparr>] [\<lparr>Path = ''d'', IsDir = True, SHA1 = ''2''\<rparr>] [] []
   = ([], [], [\<lparr>Path = ''d'', IsDir = True, SHA1 = ''2''\<rparr>], [])"
  by (simp add: appendEntry_def)

subsection \<open>Directory collapsing\<close>

text \<open>
  Claim C2. An entry offered to \<open>add\<close> or \<open>remove\<close> should be skipped exactly
  when the last-appended entry is a directory the candidate lies strictly
  beneath. \<open>InDir\<close> appends the slash to the candidate's path instead of the
  directory's, so it also holds of a sibling whose name merely starts with the
  directory's name: with the directory \<open>a\<close> last in the list, the file \<open>ab\<close> is
  skipped, and the diff of an empty tree against \<open>a/\<close>, \<open>ab\<close> asks for \<open>a\<close> only.
\<close>

theorem C2_sibling_skipped:
  "InDir \<lparr>Path = ''ab'', IsDir = False, SHA1 = ''1''\<rparr> \<lparr>Path = ''a'', IsDir = True, SHA1 = ''''\<rparr>
   \<and> \<not> strictly_beneath \<lparr>Path = ''ab'', IsDir = False, SHA1 = ''1''\<rparr> \<lparr>Path = ''a'', IsDir = True, SHA1 = ''''\<rparr>
   \<and> appendEntry [\<lparr>Path = ''a'', IsDir = True, SHA1 = ''''\<rparr>] \<lparr>Path = ''ab'', IsDir = False, SHA1 = ''1''\<rparr>
       = [\<lparr>Path = ''a'', IsDir = True, SHA1 = ''''\<rparr>]
   \<and> Diff [] [\<lparr>Path = ''a'', IsDir = True, SHA1 = ''''\<rparr>, \<lparr>Path = ''ab'', IsDir = False, SHA1 = ''1''\<rparr>]
       = ([\<lparr>Path = ''a'', IsDir = True, SHA1 = ''''\<rparr>], [])"
  by (simp add: Diff_def Diff_st_def Let_def appendEntry_def InDir_def strictly_beneath_def HasPrefix_def)

subsection \<open>The diff of a listing with itself\<close>

text \<open>
  Claim C3. For every listing \<open>A\<close>, \<open>Diff A A\<close> has an empty \<open>add\<close> and an empty
  \<open>remove\<close>.
\<close>

theorem C3_diff_self: "Diff A A = ([], [])"
  by (simp add: Diff_def Diff_st_def Let_def merge_loop_same)

subsection \<open>What the diff does to its inputs\<close>

text \<open>
  Claim C9, as stated: after \<open>Diff\<close> both inputs hold the same entries in the
  same order as before. It fails on an input that is not sorted: the caller's
  \<open>want\<close>, holding \<open>c\<close> then \<open>b\<close>, holds \<open>b\<close> then \<open>c\<close> after the call.
\<close>

theorem C9_counterexample:
  "snd (snd (Diff_st [] [\<lparr>Path = ''c'', IsDir = False, SHA1 = ''1''\<rparr>, \<lparr>Path = ''b'', IsDir = False, SHA1 = ''2''\<rparr>]))
   = [\<lparr>Path = ''b'', IsDir = False, SHA1 = ''2''\<rparr>, \<lparr>Path = ''c'', IsDir = False, SHA1 = ''1''\<rparr>]
   \<and> snd (snd (Diff_st [] [\<lparr>Path = ''c'', IsDir = False, SHA1 = ''1''\<rparr>, \<lparr>Path = ''b'', IsDir = False, SHA1 = ''2''\<rparr>]))
   \<noteq> [\<lparr>Path = ''c'', IsDir = False, SHA1 = ''1''\<rparr>, \<lparr>Path = ''b'', IsDir = False, SHA1 = ''2''\<rparr>]"
  by (simp add: Diff_st_def Let_def)

text \<open>
  Claim C9, amended. \<open>Diff\<close> sorts both inputs in place: after the call each
  input holds the entries it held before, each as often as before, in ascending
  order of path. An input whose paths were strictly ascending is as it was.
\<close>

theorem C9_inputs_sorted_in_place:
  assumes "Diff_st ours want = (res, (ours', want'))"
  shows "mset ours' = mset ours \<and> mset want' = mset want
       \<and> sorted (map Path ours') \<and> sorted (map Path want')
       \<and> (sorted_wrt (<) (map Path ours) \<longrightarrow> ours' = ours)
       \<and> (sorted_wrt (<) (map Path want) \<longrightarrow> want' = want)"
proof -
  from assms Diff_st_inputs [of ours want]
  have eq: "ours' = sort_key Path ours" "want' = sort_key Path want"
    by simp_all
  have "sorted_wrt (<) (map Path xs) \<Longrightarrow> sort_key Path xs = xs" for xs :: DirList
    by (simp add: sort_key_id_if_sorted strict_sorted_imp_sorted)
  with eq show ?thesis by simp
qed

theorem C9_inputs_sorted_in_place_witness:
  "Diff_st [\<lparr>Path = ''a'', IsDir = False, SHA1 = ''1''\<rparr>]
           [\<lparr>Path = ''c'', IsDir = False, SHA1 = ''1''\<rparr>, \<lparr>Path = ''b'', IsDir = False, SHA1 = ''2''\<rparr>]
   = (([\<lparr>Path = ''b'', IsDir = False, SHA1 = ''2''\<rparr>, \<lparr>Path = ''c'', IsDir = False, SHA1 = ''1''\<rparr>],
       [\<lparr>Path = ''a'', IsDir = False, SHA1 = ''1''\<rparr>]),
      ([\<lparr>Path = ''a'', IsDir = False, SHA1 = ''1''\<rparr>],
       [\<lparr>Path = ''b'', IsDir = False, SHA1 = ''2''\<rparr>, \<lparr>Path = ''c'', IsDir = False, SHA1 = ''1''\<rparr>]))
   \<and> sorted_wrt (<) (map Path [\<lparr>Path = ''a'', IsDir = False, SHA1 = ''1''\<rparr>])
   \<and> mset [\<lparr>Path = ''b'', IsDir = False, SHA1 = ''2''\<rparr>, \<lparr>Path = ''c'', IsDir = False, SHA1 = ''1''\<rparr>]
       = mset [\<lparr>Path = ''c'', IsDir = False, SHA1 = ''1''\<rparr>, \<lparr>Path = ''b'', IsDir = False, SHA1 = ''2''\<rparr>]
   \<and> sorted (map Path [\<lparr>Path = ''b'', IsDir = False, SHA1 = ''2''\<rparr>, \<lparr>Path = ''c'', IsDir = False, SHA1 = ''1''\<rparr>])"
proof -
  have run: "Diff_st [\<lparr>Path = ''a'', IsDir = False, SHA1 = ''1''\<rparr>]
           [\<lparr>Path = ''c'', IsDir = False, SHA1 = ''1''\<rparr>, \<lparr>Path = ''b'', IsDir = False, SHA1 = ''2''\<rparr>]
   = (([\<lparr>Path = ''b'', IsDir = False, SHA1 = ''2''\<rparr>, \<lparr>Path = ''c'', IsDir = False, SHA1 = ''1''\<rparr>],
       [\<lparr>Path = ''a'', IsDir = False, SHA1 = ''1''\<rparr>]),
      ([\<lparr>Path = ''a'', IsDir = False, SHA1 = ''1''\<rparr>],
       [\<lparr>Path = ''b'', IsDir = False, SHA1 = ''2''\<rparr>, \<lparr>Path = ''c'', IsDir = False, SHA1 = ''1''\<rparr>]))"
    by (simp add: Diff_st_def Let_def appendEntry_def InDir_def HasPrefix_def)
  from C9_inputs_sorted_in_place [OF run] run show ?thesis
    by simp
qed

section \<open>Properties of the server\<close>

lemmas State_defs =
  StateCreated_def StateFetching_def StateBuilding_def StateBuilt_def
  StateRunning_def StateStopped_def

subsection \<open>A failed compilation\<close>

text \<open>
  Claim C4, as stated: when the compilation fails, the state stays what it was
  before the call, \<open>created\<close>. \<open>GoBuild\<close> sets the state to \<open>building\<close> before it
  runs the compiler and leaves it there when the compiler fails.
\<close>

theorem C4_counterexample:
  "State (snd (GoBuild (''main.go:3: syntax error'', Some ''exit status 2'') exampleBuild)) = ''building''
   \<and> State exampleBuild = ''created''"
  by (simp add: GoBuild_def exampleBuild_def State_defs)

text \<open>
  Claim C4, amended. \<open>GoBuild\<close> returns the compiler's error; after a failed
  compilation the state is \<open>building\<close>, whatever it was before, and after a
  successful one it is \<open>built\<close>: the state is \<open>built\<close> only on success. What the
  compiler wrote is appended to the log in both cases.
\<close>

theorem C4_GoBuild_state:
  "fst (GoBuild run b) = snd run
   \<and> State (snd (GoBuild run b)) = (if snd run = None then StateBuilt else StateBuilding)
   \<and> output (snd (GoBuild run b)) = output b @ fst run
   \<and> (State (snd (GoBuild run b)) = StateBuilt \<longleftrightarrow> snd run = None)"
  by (cases "snd run") (simp_all add: GoBuild_def Let_def State_defs)

subsection \<open>Stopping a build\<close>

text \<open>
  Claim C5. \<open>Stop\<close> returns without error only from the state \<open>running\<close>, and
  then the state is \<open>stopped\<close>; from every other state it returns the error
  "Tried to stop binary when not running" and leaves the build as it is; when
  the state is \<open>running\<close> and the command has no process, it sets the state to
  \<open>stopped\<close> and returns an error all the same.
\<close>

theorem C5_Stop:
  "(State b \<noteq> StateRunning \<longrightarrow>
      Stop W b = Return (Some ''Tried to stop binary when not running'', b))
   \<and> (\<forall>b'. Stop W b = Return (None, b') \<longrightarrow>
         State b = StateRunning \<and> b' = b\<lparr>State := StateStopped\<rparr>)
   \<and> (\<forall>c. State b = StateRunning \<and> cmd b = Some c \<and> Process c = None \<longrightarrow>
         Stop W b = Return (Some ''Tried to stop binary when process not running'',
                            b\<lparr>State := StateStopped\<rparr>))"
proof (intro conjI allI impI)
  assume "State b \<noteq> StateRunning"
  then show "Stop W b = Return (Some ''Tried to stop binary when not running'', b)"
    by (simp add: Stop_def)
next
  fix b' assume r: "Stop W b = Return (None, b')"
  then show "State b = StateRunning"
    by (simp add: Stop_def split: if_splits)
  from r show "b' = b\<lparr>State := StateStopped\<rparr>"
    by (simp add: Stop_def split: if_splits option.splits)
next
  fix c assume "State b = StateRunning \<and> cmd b = Some c \<and> Process c = None"
  then show "Stop W b = Return (Some ''Tried to stop binary when process not running'',
                            b\<lparr>State := StateStopped\<rparr>)"
    by (simp add: Stop_def)
qed

theorem C5_Stop_witness:
  "State exampleBuild \<noteq> StateRunning
   \<and> Stop exampleWorld exampleBuild = Return (Some ''Tried to stop binary when not running'', exampleBuild)
   \<and> Stop exampleWorld (exampleBuild\<lparr>State := StateRunning, cmd := Some exampleCmd\<rparr>)
       = Return (Some ''Tried to stop binary when process not running'',
                 exampleBuild\<lparr>State := StateRunning, cmd := Some exampleCmd\<rparr>\<lparr>State := StateStopped\<rparr>)
   \<and> Stop exampleWorld (exampleBuild\<lparr>State := StateRunning, cmd := Some (exampleCmd\<lparr>Process := Some 7\<rparr>)\<rparr>)
       = Return (None, exampleBuild\<lparr>State := StateStopped, cmd := Some (exampleCmd\<lparr>Process := Some 7\<rparr>)\<rparr>)
   \<and> State (exampleBuild\<lparr>State := StateRunning, cmd := Some (exampleCmd\<lparr>Process := Some 7\<rparr>)\<rparr>) = StateRunning"
proof -
  have a: "State exampleBuild \<noteq> StateRunning"
    by (simp add: exampleBuild_def State_defs)
  have b: "State (exampleBuild\<lparr>State := StateRunning, cmd := Some exampleCmd\<rparr>) = StateRunning
      \<and> cmd (exampleBuild\<lparr>State := StateRunning, cmd := Some exampleCmd\<rparr>) = Some exampleCmd
      \<and> Process exampleCmd = None"
    by (simp add: exampleCmd_def)
  have c: "Stop exampleWorld (exampleBuild\<lparr>State := StateRunning, cmd := Some (exampleCmd\<lparr>Process := Some 7\<rparr>)\<rparr>)
       = Return (None, exampleBuild\<lparr>State := StateStopped, cmd := Some (exampleCmd\<lparr>Process := Some 7\<rparr>)\<rparr>)"
    by (simp add: Stop_def exampleWorld_def)
  from C5_Stop [of exampleBuild exampleWorld] a
  have 1: "Stop exampleWorld exampleBuild = Return (Some ''Tried to stop binary when not running'', exampleBuild)"
    by blast
  from C5_Stop [of "exampleBuild\<lparr>State := StateRunning, cmd := Some exampleCmd\<rparr>" exampleWorld] b
  have 2: "Stop exampleWorld (exampleBuild\<lparr>State := StateRunning, cmd := Some exampleCmd\<rparr>)
       = Return (Some ''Tried to stop binary when process not running'',
                 exampleBuild\<lparr>State := StateRunning, cmd := Some exampleCmd\<rparr>\<lparr>State := StateStopped\<rparr>)"
    by blast
  from C5_Stop [of "exampleBuild\<lparr>State := StateRunning, cmd := Some (exampleCmd\<lparr>Process := Some 7\<rparr>)\<rparr>" exampleWorld] c
  have 3: "State (exampleBuild\<lparr>State := StateRunning, cmd := Some (exampleCmd\<lparr>Process := Some 7\<rparr>)\<rparr>) = StateRunning"
    by blast
  from a 1 2 c 3 show ?thesis by blast
qed

subsection \<open>Forwarding traffic\<close>

text \<open>
  Claim C6, as stated: in every case but a running build, also when there is no
  build, the answer carries the current state and the log. With no build the
  answer is a fixed sentence.
\<close>

theorem C6_counterexample:
  "body (reply (proxyHandler newWriter \<lparr>build = None, calls = []\<rparr>))
     = [''No app to run. Use `flexdev deploy` to deploy the application code.'']
   \<and> status (reply (proxyHandler newWriter \<lparr>build = None, calls = []\<rparr>)) = Some 503"
  by (simp add: proxyHandler_def newWriter_def Write_def WriteHeader_def HeaderSet_def
      StatusServiceUnavailable_def)

text \<open>
  Claim C6, amended. On a writer nothing was written to, \<open>proxyHandler\<close> hands
  the request on exactly when there is a build whose state is \<open>running\<close>, and
  then to that build's address. With a build in any other state it forwards
  nothing and answers 503 with the state and the log as text; with no build it
  forwards nothing and answers 503 with a fixed sentence.
\<close>

theorem C6_proxy:
  assumes fresh: "status w = None"
  shows "(is_Forwarded (proxyHandler w s) \<longleftrightarrow> (\<exists>b. build s = Some b \<and> State b = StateRunning))
     \<and> (\<forall>b. build s = Some b \<and> State b = StateRunning \<longrightarrow>
           proxyHandler w s = Forwarded ''http'' (addr b) (HeaderSet ''X-FlexDev'' Version w))
     \<and> (\<forall>b. build s = Some b \<and> State b \<noteq> StateRunning \<longrightarrow>
           \<not> is_Forwarded (proxyHandler w s)
           \<and> status (reply (proxyHandler w s)) = Some StatusServiceUnavailable
           \<and> body (reply (proxyHandler w s)) = body w @ [''state: '' @ State b @ [CHR 0x0A], output b])
     \<and> (build s = None \<longrightarrow>
           \<not> is_Forwarded (proxyHandler w s)
           \<and> status (reply (proxyHandler w s)) = Some StatusServiceUnavailable
           \<and> body (reply (proxyHandler w s))
               = body w @ [''No app to run. Use `flexdev deploy` to deploy the application code.''])"
proof (intro conjI allI impI)
  show "is_Forwarded (proxyHandler w s) \<longleftrightarrow> (\<exists>b. build s = Some b \<and> State b = StateRunning)"
    by (cases "build s") (simp_all add: proxyHandler_def)
next
  fix b assume "build s = Some b \<and> State b = StateRunning"
  then show "proxyHandler w s = Forwarded ''http'' (addr b) (HeaderSet ''X-FlexDev'' Version w)"
    by (simp add: proxyHandler_def)
next
  fix b assume b: "build s = Some b \<and> State b \<noteq> StateRunning"
  then have eq: "proxyHandler w s = Replied
              (Write (output b)
                (Write (''state: '' @ State b @ [CHR 0x0A])
                  (HeaderSet ''Content-Type'' ''text/plain; charset=utf-8''
                    (WriteHeader StatusServiceUnavailable w))))"
    by (simp add: proxyHandler_def)
  show "\<not> is_Forwarded (proxyHandler w s)" by (simp add: eq)
  show "status (reply (proxyHandler w s)) = Some StatusServiceUnavailable"
    using fresh by (simp add: eq Write_def WriteHeader_def HeaderSet_def)
  show "body (reply (proxyHandler w s)) = body w @ [''state: '' @ State b @ [CHR 0x0A], output b]"
    using fresh by (simp add: eq Write_def WriteHeader_def HeaderSet_def)
next
  assume "build s = None"
  then have eq: "proxyHandler w s = Replied
            (Write ''No app to run. Use `flexdev deploy` to deploy the application code.''
              (HeaderSet ''Content-Type'' ''text/plain; charset=utf-8''
                (WriteHeader StatusServiceUnavailable w)))"
    by (simp add: proxyHandler_def)
  show "\<not> is_Forwarded (proxyHandler w s)" by (simp add: eq)
  show "status (reply (proxyHandler w s)) = Some StatusServiceUnavailable"
    using fresh by (simp add: eq Write_def WriteHeader_def HeaderSet_def)
  show "body (reply (proxyHandler w s))
               = body w @ [''No app to run. Use `flexdev deploy` to deploy the application code.'']"
    using fresh by (simp add: eq Write_def WriteHeader_def HeaderSet_def)
qed

theorem C6_proxy_witness:
  "status newWriter = None
   \<and> proxyHandler newWriter
         \<lparr>build = Some (exampleBuild\<lparr>State := StateRunning, addr := ''[::]:8081''\<rparr>), calls = []\<rparr>
       = Forwarded ''http'' ''[::]:8081'' (HeaderSet ''X-FlexDev'' Version newWriter)
   \<and> \<not> is_Forwarded (proxyHandler newWriter \<lparr>build = Some exampleBuild, calls = []\<rparr>)
   \<and> status (reply (proxyHandler newWriter \<lparr>build = Some exampleBuild, calls = []\<rparr>)) = Some 503
   \<and> body (reply (proxyHandler newWriter \<lparr>build = Some exampleBuild, calls = []\<rparr>))
       = [''state: created'' @ [CHR 0x0A], ''log'']
   \<and> \<not> is_Forwarded (proxyHandler newWriter \<lparr>build = None, calls = []\<rparr>)"
proof -
  let ?run = "exampleBuild\<lparr>State := StateRunning, addr := ''[::]:8081''\<rparr>"
  have fresh: "status newWriter = None"
    by (simp add: newWriter_def)
  have r: "build \<lparr>build = Some ?run, calls = []\<rparr> = Some ?run \<and> State ?run = StateRunning"
    by simp
  have c: "build \<lparr>build = Some exampleBuild, calls = []\<rparr> = Some exampleBuild
           \<and> State exampleBuild \<noteq> StateRunning"
    by (simp add: exampleBuild_def State_defs)
  have n: "build \<lparr>build = None, calls = []\<rparr> = None"
    by simp
  from C6_proxy [OF fresh, of "\<lparr>build = Some ?run, calls = []\<rparr>"] r
  have 1: "proxyHandler newWriter \<lparr>build = Some ?run, calls = []\<rparr>
       = Forwarded ''http'' (addr ?run) (HeaderSet ''X-FlexDev'' Version newWriter)"
    by blast
  from C6_proxy [OF fresh, of "\<lparr>build = Some exampleBuild, calls = []\<rparr>"] c
  have 2: "\<not> is_Forwarded (proxyHandler newWriter \<lparr>build = Some exampleBuild, calls = []\<rparr>)
     \<and> status (reply (proxyHandler newWriter \<lparr>build = Some exampleBuild, calls = []\<rparr>))
          = Some StatusServiceUnavailable
     \<and> body (reply (proxyHandler newWriter \<lparr>build = Some exampleBuild, calls = []\<rparr>))
          = body newWriter @ [''state: '' @ State exampleBuild @ [CHR 0x0A], output exampleBuild]"
    by blast
  from C6_proxy [OF fresh, of "\<lparr>build = None, calls = []\<rparr>"] n
  have 3: "\<not> is_Forwarded (proxyHandler newWriter \<lparr>build = None, calls = []\<rparr>)"
    by blast
  have v: "addr ?run = ''[::]:8081''" "body newWriter = []" "State exampleBuild = ''created''"
    "output exampleBuild = ''log''" "StatusServiceUnavailable = 503"
    by (simp_all add: newWriter_def exampleBuild_def StateCreated_def StatusServiceUnavailable_def)
  from fresh 1 2 3 show ?thesis
    unfolding v by simp
qed

subsection \<open>Handlers without a build\<close>

text \<open>
  Claim C8. Every control operation should answer with an error response, also
  when there is no build. \<open>startBuildHandler\<close> and \<open>putFileHandler\<close> (given a
  build id) read the package variable \<open>build\<close> without the nil test that
  \<open>statusHandler\<close>, \<open>proxyHandler\<close> and \<open>createBuildHandler\<close> make: with no build
  they panic and write nothing.
\<close>

theorem C8_nil_build_panics:
  "startBuildHandler W w \<lparr>build = None, calls = cs\<rparr> = Panic (w, \<lparr>build = None, calls = cs\<rparr>)
   \<and> putFileHandler W ''1'' ''main.go'' ''da39'' (Inr ''x'') w \<lparr>build = None, calls = cs\<rparr>
       = Panic (w, \<lparr>build = None, calls = cs\<rparr>)"
  by (simp add: startBuildHandler_def putFileHandler_def)

subsection \<open>A create request whose configuration does not parse\<close>

lemma removeLoop_all_ok:
  "\<forall>f \<in> set fs. RemoveAll W (Join W d f) = None \<Longrightarrow>
   removeLoop W d fs cs = (None, cs @ map (\<lambda>f. RemoveAllCall (Join W d f)) fs)"
  by (induction fs arbitrary: cs) (simp_all add: Let_def)

lemma filesNeeded_ok:
  assumes "ListDir W (dir b) = Inr ours" and "Diff ours (clientFiles b) = (add, del)"
  shows "filesNeeded W b =
     ((map Path add, map Path del, None), b\<lparr>clientFiles := sort_key Path (clientFiles b)\<rparr>)"
proof -
  obtain r i where st: "Diff_st ours (clientFiles b) = (r, i)"
    by (cases "Diff_st ours (clientFiles b)")
  with assms(2) have r: "r = (add, del)" by (simp add: Diff_def)
  from st Diff_st_inputs [of ours "clientFiles b"]
  have i: "i = (sort_key Path ours, sort_key Path (clientFiles b))" by simp
  show ?thesis
    using assms(1) by (simp add: filesNeeded_def st r i)
qed

lemma createBuild_allocate_ok:
  assumes listing: "ListDir W (packageDir W) = Inr ours"
      and diff: "Diff ours (Files req) = (add, del)"
      and rm: "\<forall>e \<in> set del. RemoveAll W (Join W (packageDir W) (Path e)) = None"
      and nb: "nb = \<lparr>ID = Sprintf_d (now W), State = StateCreated,
                      clientFiles = sort_key Path (Files req), removeF = [], dir = packageDir W,
                      cmd = None, output = [], addr = [], config = Some cfg\<rparr>"
  shows "createBuild_allocate W req cfg w s =
     (WriteTo W (Response0\<lparr>Message := ''Build created.'', RBuild := Some nb,
                            NeedFiles := map Path add\<rparr>) w,
      \<lparr>build = Some nb,
       calls = calls s @ map (\<lambda>e. RemoveAllCall (Join W (packageDir W) (Path e))) del\<rparr>)"
proof -
  let ?b = "\<lparr>ID = Sprintf_d (now W), State = StateCreated,
                clientFiles = Files req, removeF = [], dir = packageDir W,
                cmd = None, output = [], addr = [], config = Some cfg\<rparr>"
  have fn: "filesNeeded W ?b = ((map Path add, map Path del, None), nb)"
    using filesNeeded_ok [of W ?b ours add del] listing diff by (simp add: nb)
  have rl: "removeLoop W (packageDir W) (map Path del) (calls s) =
      (None, calls s @ map (\<lambda>e. RemoveAllCall (Join W (packageDir W) (Path e))) del)"
    using removeLoop_all_ok [of "map Path del" W "packageDir W" "calls s"] rm
    by (simp add: comp_def)
  have d: "dir nb = packageDir W" by (simp add: nb)
  show ?thesis
    by (simp add: createBuild_allocate_def fn rl d)
qed

lemma createBuild_request_parse_error:
  assumes cfgne: "Config req \<noteq> []" and filesne: "Files req \<noteq> []"
      and yaml: "yamlUnmarshal W (Config req) = (Some err, cfg)"
      and mkdir: "MkdirAll W (packageDir W) = None"
  shows "createBuild_request W (Body req) w s =
     createBuild_allocate W req cfg
       (WriteTo W (Response0\<lparr>Error := Some (''Could not parse yaml config: '' @ err),
                             Code := StatusBadRequest\<rparr>) w)
       (s\<lparr>calls := calls s @ [MkdirAllCall (packageDir W)]\<rparr>)"
  using assms by (simp add: createBuild_request_def)

lemma createBuildHandler_passes_stop:
  assumes "\<forall>b. build s = Some b \<and> State b = StateRunning \<longrightarrow> (\<exists>b'. Stop W b = Return (None, b'))"
  shows "\<exists>s'. calls s' = calls s \<and> createBuildHandler W rb w s = Return (createBuild_request W rb w s')"
proof (cases "build s")
  case None
  then show ?thesis by (auto simp: createBuildHandler_def)
next
  case (Some b)
  show ?thesis
  proof (cases "State b = StateRunning")
    case False
    with Some show ?thesis by (auto simp: createBuildHandler_def)
  next
    case True
    with Some assms obtain b' where "Stop W b = Return (None, b')" by blast
    with Some True
    have "createBuildHandler W rb w s = Return (createBuild_request W rb w (s\<lparr>build := Some b'\<rparr>))"
      by (simp add: createBuildHandler_def)
    moreover have "calls (s\<lparr>build := Some b'\<rparr>) = calls s" by simp
    ultimately show ?thesis by blast
  qed
qed

text \<open>
  Claim C10. When the configuration of a create request does not parse,
  \<open>createBuildHandler\<close> writes the bad-request response and goes on as it does
  after a successful parse: where the directory can be made and listed and the
  stale paths can be removed, it allocates a new build holding the partly parsed
  configuration, removes every path of the diff's \<open>remove\<close> list, and writes the
  "Build created." response after the first one. The paths of each of the two
  listings are distinct, so that the sort has one possible result.
\<close>

theorem C10_create_goes_on_after_parse_error:
  assumes stop: "\<forall>b. build s = Some b \<and> State b = StateRunning \<longrightarrow> (\<exists>b'. Stop W b = Return (None, b'))"
      and cfgne: "Config req \<noteq> []" and filesne: "Files req \<noteq> []"
      and yaml: "yamlUnmarshal W (Config req) = (Some err, cfg)"
      and mkdir: "MkdirAll W (packageDir W) = None"
      and listing: "ListDir W (packageDir W) = Inr ours"
      and paths: "distinct (map Path ours)" "distinct (map Path (Files req))"
      and diff: "Diff ours (Files req) = (add, del)"
      and rm: "\<forall>e \<in> set del. RemoveAll W (Join W (packageDir W) (Path e)) = None"
      and nb: "nb = \<lparr>ID = Sprintf_d (now W), State = StateCreated,
                      clientFiles = sort_key Path (Files req), removeF = [], dir = packageDir W,
                      cmd = None, output = [], addr = [], config = Some cfg\<rparr>"
  shows "createBuildHandler W (Body req) w s =
     Return
       (WriteTo W (Response0\<lparr>Message := ''Build created.'', RBuild := Some nb,
                              NeedFiles := map Path add\<rparr>)
          (WriteTo W (Response0\<lparr>Error := Some (''Could not parse yaml config: '' @ err),
                                Code := StatusBadRequest\<rparr>) w),
        \<lparr>build = Some nb,
         calls = calls s @ MkdirAllCall (packageDir W)
                   # map (\<lambda>e. RemoveAllCall (Join W (packageDir W) (Path e))) del\<rparr>)"
proof -
  from createBuildHandler_passes_stop [OF stop, of "Body req" w]
  obtain s' where s': "calls s' = calls s"
    and h: "createBuildHandler W (Body req) w s = Return (createBuild_request W (Body req) w s')"
    by blast
  have "createBuild_request W (Body req) w s' =
     createBuild_allocate W req cfg
       (WriteTo W (Response0\<lparr>Error := Some (''Could not parse yaml config: '' @ err),
                             Code := StatusBadRequest\<rparr>) w)
       (s'\<lparr>calls := calls s' @ [MkdirAllCall (packageDir W)]\<rparr>)"
    by (rule createBuild_request_parse_error [OF cfgne filesne yaml mkdir])
  also have "\<dots> =
       (WriteTo W (Response0\<lparr>Message := ''Build created.'', RBuild := Some nb,
                              NeedFiles := map Path add\<rparr>)
          (WriteTo W (Response0\<lparr>Error := Some (''Could not parse yaml config: '' @ err),
                                Code := StatusBadRequest\<rparr>) w),
        \<lparr>build = Some nb,
         calls = calls s @ MkdirAllCall (packageDir W)
                   # map (\<lambda>e. RemoveAllCall (Join W (packageDir W) (Path e))) del\<rparr>)"
    using createBuild_allocate_ok [OF listing diff rm nb] by (simp add: s')
  finally show ?thesis using h by simp
qed


theorem C10_create_goes_on_after_parse_error_witness:
  "yamlUnmarshal exampleWorld (Config exampleRequest)
     = (Some ''yaml: did not find expected key'', \<lparr>Runtime = ''go'', VM = '''', Env = []\<rparr>)
   \<and> createBuildHandler exampleWorld (Body exampleRequest) newWriter \<lparr>build = None, calls = []\<rparr> =
     Return
       (newWriter\<lparr>status := Some 400,
                  body := [''Could not parse yaml config: yaml: did not find expected key'',
                           ''Build created.'']\<rparr>,
        \<lparr>build = Some \<lparr>ID = ''1462603439818096410'', State = ''created'',
                        clientFiles = [\<lparr>Path = ''.'', IsDir = True, SHA1 = ''''\<rparr>,
                                       \<lparr>Path = ''main.go'', IsDir = False, SHA1 = ''1''\<rparr>],
                        removeF = [], dir = ''/tmp/flexdev-server'', cmd = None, output = [],
                        addr = [], config = Some \<lparr>Runtime = ''go'', VM = '''', Env = []\<rparr>\<rparr>,
         calls = [MkdirAllCall ''/tmp/flexdev-server'',
                  RemoveAllCall ''/tmp/flexdev-server/old.go'']\<rparr>)"
proof -
  let ?s = "\<lparr>build = None, calls = []\<rparr>"
  let ?ours = "[\<lparr>Path = ''.'', IsDir = True, SHA1 = ''''\<rparr>,
                \<lparr>Path = ''old.go'', IsDir = False, SHA1 = ''0''\<rparr>]"
  let ?add = "[\<lparr>Path = ''main.go'', IsDir = False, SHA1 = ''1''\<rparr>]"
  let ?del = "[\<lparr>Path = ''old.go'', IsDir = False, SHA1 = ''0''\<rparr>]"
  let ?cfg = "\<lparr>Runtime = ''go'', VM = '''', Env = []\<rparr>"
  let ?nb = "\<lparr>ID = Sprintf_d (now exampleWorld), State = StateCreated,
              clientFiles = sort_key Path (Files exampleRequest), removeF = [],
              dir = packageDir exampleWorld,
              cmd = None, output = [], addr = [], config = Some ?cfg\<rparr>"
  have stop: "\<forall>b. build ?s = Some b \<and> State b = StateRunning \<longrightarrow>
                (\<exists>b'. Stop exampleWorld b = Return (None, b'))"
    by simp
  have cfgne: "Config exampleRequest \<noteq> []" and filesne: "Files exampleRequest \<noteq> []"
    by (simp_all add: exampleRequest_def)
  have yaml: "yamlUnmarshal exampleWorld (Config exampleRequest)
                = (Some ''yaml: did not find expected key'', ?cfg)"
    by (simp add: exampleWorld_def)
  have mkdir: "MkdirAll exampleWorld (packageDir exampleWorld) = None"
    by (simp add: exampleWorld_def)
  have listing: "ListDir exampleWorld (packageDir exampleWorld) = Inr ?ours"
    by (simp add: exampleWorld_def)
  have paths: "distinct (map Path ?ours)" "distinct (map Path (Files exampleRequest))"
    by (simp_all add: exampleRequest_def)
  have diff: "Diff ?ours (Files exampleRequest) = (?add, ?del)"
    by (simp add: exampleRequest_def Diff_def Diff_st_def Let_def appendEntry_def InDir_def
        HasPrefix_def)
  have rm: "\<forall>e \<in> set ?del.
      RemoveAll exampleWorld (Join exampleWorld (packageDir exampleWorld) (Path e)) = None"
    by (simp add: exampleWorld_def)
  note run = C10_create_goes_on_after_parse_error
    [OF stop cfgne filesne yaml mkdir listing paths diff rm refl, of newWriter]
  have nbv: "?nb = \<lparr>ID = ''1462603439818096410'', State = ''created'',
                        clientFiles = [\<lparr>Path = ''.'', IsDir = True, SHA1 = ''''\<rparr>,
                                       \<lparr>Path = ''main.go'', IsDir = False, SHA1 = ''1''\<rparr>],
                        removeF = [], dir = ''/tmp/flexdev-server'', cmd = None, output = [],
                        addr = [], config = Some ?cfg\<rparr>"
    by (simp add: exampleWorld_def exampleRequest_def Sprintf_d_def StateCreated_def)
  have w1: "WriteTo exampleWorld
        (Response0\<lparr>Error := Some (''Could not parse yaml config: '' @ ''yaml: did not find expected key''),
                    Code := StatusBadRequest\<rparr>) newWriter
      = newWriter\<lparr>status := Some 400,
                  body := [''Could not parse yaml config: yaml: did not find expected key'']\<rparr>"
    by (simp add: WriteTo_def exampleWorld_def Response0_def StatusBadRequest_def Write_def
        WriteHeader_def newWriter_def)
  have w2: "WriteTo exampleWorld
        (Response0\<lparr>Message := ''Build created.'', RBuild := Some b, NeedFiles := n\<rparr>)
        (newWriter\<lparr>status := Some 400,
                  body := [''Could not parse yaml config: yaml: did not find expected key'']\<rparr>)
      = newWriter\<lparr>status := Some 400,
                  body := [''Could not parse yaml config: yaml: did not find expected key'',
                           ''Build created.'']\<rparr>" for b n
    by (simp add: WriteTo_def exampleWorld_def Response0_def Write_def
        WriteHeader_def newWriter_def)
  have calls: "calls ?s @ MkdirAllCall (packageDir exampleWorld)
                   # map (\<lambda>e. RemoveAllCall (Join exampleWorld (packageDir exampleWorld) (Path e))) ?del
       = [MkdirAllCall ''/tmp/flexdev-server'', RemoveAllCall ''/tmp/flexdev-server/old.go'']"
    by (simp add: exampleWorld_def)
  from run show ?thesis
    unfolding nbv w1 w2 calls using yaml by simp
qed

section \<open>Properties of the upload pool\<close>

text \<open>
  Claim C7. Once a worker has recorded an error, every path received after
  that should be skipped, and the caller should get the first failure. A worker
  reads \<open>sendErr\<close> before it waits at the channel, not after it received:
  workers 0 and 1 read it while it is still nil and wait; worker 0 receives
  \<open>X\<close>, fails and records the error, with \<open>Y\<close> still to be sent; worker 1 then
  receives \<open>Y\<close> and uploads it. Its failure is assigned to \<open>sendErr\<close> with no
  test for an error already there, so the caller gets the failure of \<open>Y\<close>, the
  last one.
\<close>

theorem C7_parked_worker_uploads_after_error:
  "sendErr (runPool sumMismatch [0, 1, 0, 0, 0, 0] (startPool [''X'', ''Y'']))
     = Some ''Could not send X: Remote error: sum did not match''
   \<and> pending (runPool sumMismatch [0, 1, 0, 0, 0, 0] (startPool [''X'', ''Y''])) = [''Y'']
   \<and> transferred (runPool sumMismatch [0, 1, 0, 0, 0, 0] (startPool [''X'', ''Y''])) = [''X'']
   \<and> transferred (runPool sumMismatch [0, 1, 0, 0, 0, 0, 1, 1, 1, 1] (startPool [''X'', ''Y'']))
     = [''X'', ''Y'']
   \<and> uploadResult (runPool sumMismatch [0, 1, 0, 0, 0, 0, 1, 1, 1, 1] (startPool [''X'', ''Y'']))
     = Some (Some ''Could not send file: Could not send Y: Remote error: sum did not match'')"
  by (simp add: runPool_def startPool_def worker_step_def sumMismatch_def uploadResult_def
      numeral_eq_Suc)

end
